theory Spec2Isabelle
  imports Complex_Main
begin

section \<open>Numbers, errors and text\<close>

text \<open>
  The program computes lot sizes, z-scores and hedge ratios with Python floats. They are
  modelled as \<^typ>\<open>real\<close>: every operation is exact, and the binary rounding of IEEE
  arithmetic is outside the model. Clock readings (\<open>time.time()\<close>, \<open>datetime.now()\<close>)
  are arguments of the functions that read the clock.
\<close>

datatype py_error =
    ValueError string
  | ZeroDivisionError
  | UnboundLocalError string
  | AttributeError string
  | IndexError

text \<open>Python's \<open>round(x)\<close>: the nearest integer, a tie going to the even neighbour.\<close>

definition py_round :: "real \<Rightarrow> int" where
  "py_round x =
     (let f = \<lfloor>x\<rfloor>; d = x - of_int f
      in if d < 1 / 2 then f
         else if 1 / 2 < d then f + 1
         else if even f then f else f + 1)"

text \<open>\<open>round(x, 2)\<close>, the fallback when the terminal does not know the symbol.\<close>

definition py_round2 :: "real \<Rightarrow> real" where
  "py_round2 x = of_int (py_round (x * 100)) / 100"

text \<open>\<open>str(n)\<close> for the integers that f-strings print (tickets, return codes).\<close>

fun str_nat :: "nat \<Rightarrow> string" where
  "str_nat n =
     (if n < 10 then [''0123456789'' ! n]
      else str_nat (n div 10) @ [''0123456789'' ! (n mod 10)])"

declare str_nat.simps [simp del]

definition str_int :: "int \<Rightarrow> string" where
  "str_int i = (if i < 0 then CHR ''-'' # str_nat (nat (- i)) else str_nat (nat i))"

definition str_ticket :: "int option \<Rightarrow> string" where
  "str_ticket t = (case t of None \<Rightarrow> ''None'' | Some i \<Rightarrow> str_int i)"

text \<open>\<open>s.upper()\<close> on ASCII letters.\<close>

definition upper_char :: "char \<Rightarrow> char" where
  "upper_char c =
     (case map_of (zip ''abcdefghijklmnopqrstuvwxyz'' ''ABCDEFGHIJKLMNOPQRSTUVWXYZ'') c of
        None \<Rightarrow> c
      | Some u \<Rightarrow> u)"

definition py_upper :: "string \<Rightarrow> string" where
  "py_upper s = map upper_char s"

section \<open>The MetaTrader 5 terminal\<close>

text \<open>
  The terminal is the environment of the program. The model keeps what the program reads
  from it (symbol specifications, ticks, open positions, the answer to an order) and logs
  every request that \<open>order_send\<close> receives, so that a theorem can say which orders were
  attempted. A deal that the terminal accepts with \<open>position = ticket\<close> closes that position.
\<close>

datatype mt5_order_type = ORDER_TYPE_BUY | ORDER_TYPE_SELL

record symbol_info =
  visible :: bool
  volume_min :: real
  volume_max :: real
  volume_step :: real

record tick =
  ask :: real
  bid :: real

record mt5_position =
  p_type :: mt5_order_type
  p_symbol :: string
  p_volume :: real
  p_magic :: int

record order_request =
  req_symbol :: string
  req_volume :: real
  req_type :: mt5_order_type
  req_price :: "real option"
  req_deviation :: "nat option"
  req_magic :: int
  req_comment :: string
  req_position :: "int option"
  req_sl :: "real option"
  req_tp :: "real option"

record order_send_result =
  retcode :: int
  order :: int
  res_volume :: real
  res_price :: real
  res_comment :: string

definition TRADE_RETCODE_DONE :: int where
  "TRADE_RETCODE_DONE = 10009"

record mt5_terminal =
  symbols :: "string \<rightharpoonup> symbol_info"
  selectable :: "string \<Rightarrow> bool"
  ticks :: "string \<rightharpoonup> tick"
  positions :: "int \<rightharpoonup> mt5_position"
  respond :: "order_request \<Rightarrow> order_send_result option"
  last_error :: string
  requests :: "order_request list"

definition order_send ::
  "mt5_terminal \<Rightarrow> order_request \<Rightarrow> order_send_result option \<times> mt5_terminal" where
  "order_send br req =
     (let res = respond br req;
          accepted = (case res of None \<Rightarrow> False | Some r \<Rightarrow> retcode r = TRADE_RETCODE_DONE);
          ps = (case req_position req of
                  Some t \<Rightarrow> if accepted then (positions br)(t := None) else positions br
                | None \<Rightarrow> positions br)
      in (res, br\<lparr>positions := ps, requests := requests br @ [req]\<rparr>))"

section \<open>Volume quantization\<close>

text \<open>
  \<open>place_market_order\<close> (lines 140 to 154) and \<open>place_spread_orders\<close> (lines 311, 312 and
  331, 332) each round a volume to the broker's step and bring it into the broker's
  limits. A zero step makes Python's float division raise.
\<close>

definition round_to_step :: "real \<Rightarrow> real \<Rightarrow> real" where
  "round_to_step vol step = of_int (py_round (vol / step)) * step"


definition spread_leg_volume :: "real \<Rightarrow> real \<Rightarrow> real \<Rightarrow> real \<Rightarrow> py_error + real" where
  "spread_leg_volume vol step vmin vmax =
     (if step = 0 then Inl ZeroDivisionError
      else Inr (max vmin (min vmax (round_to_step vol step))))"

section \<open>The trade executor (core/mt5_trade_executor.py)\<close>

record TradeResult =
  success :: bool
  order_ticket :: "int option"
  volume :: real
  price :: real
  comment :: string
  error_code :: "int option"
  error_description :: "string option"

record MT5TradeExecutor =
  magic_number :: int
  volume_multiplier :: real
  primary_symbol :: string
  secondary_symbol :: string

definition failed_result :: "int option \<Rightarrow> string \<Rightarrow> TradeResult" where
  "failed_result ticket text =
     \<lparr>success = False, order_ticket = ticket, volume = 0, price = 0, comment = text,
      error_code = None, error_description = None\<rparr>"

text \<open>
  \<open>_place_order_no_adjustment\<close>: sends the volume it is given. \<open>market_request\<close> is
  the request it prepares (lines 427 to 453; the action, time and filling fields are the
  same constants in every request and are left out). A missing tick makes
  \<open>mt5.symbol_info_tick(symbol).ask\<close> raise; every other failure is a returned
  \<open>TradeResult\<close> with \<open>success = False\<close>.
\<close>

definition market_request ::
  "MT5TradeExecutor \<Rightarrow> string \<Rightarrow> string \<Rightarrow> real \<Rightarrow> real option \<Rightarrow> real option \<Rightarrow>
   string \<Rightarrow> tick \<Rightarrow> order_request" where
  "market_request ex symbol ord_type vol sl tp cmt t =
     (let buy = (py_upper ord_type = ''BUY'')
      in \<lparr>req_symbol = symbol, req_volume = vol,
          req_type = (if buy then ORDER_TYPE_BUY else ORDER_TYPE_SELL),
          req_price = Some (if buy then ask t else bid t),
          req_deviation = Some 20, req_magic = magic_number ex,
          req_comment = cmt, req_position = None, req_sl = sl, req_tp = tp\<rparr>)"

definition place_order_no_adjustment ::
  "MT5TradeExecutor \<Rightarrow> mt5_terminal \<Rightarrow> string \<Rightarrow> string \<Rightarrow> real \<Rightarrow> real option \<Rightarrow>
   real option \<Rightarrow> string \<Rightarrow> (py_error + TradeResult) \<times> mt5_terminal" where
  "place_order_no_adjustment ex br symbol ord_type vol sl tp cmt =
     (case symbols br symbol of
        None \<Rightarrow> (Inr (failed_result None (''Symbol '' @ symbol @ '' not found'')), br)
      | Some info \<Rightarrow>
          if \<not> visible info \<and> \<not> selectable br symbol
          then (Inr (failed_result None (''Failed to select '' @ symbol)), br)
          else
            (case ticks br symbol of
               None \<Rightarrow> (Inl (AttributeError ''NoneType''), br)
             | Some t \<Rightarrow>
                 let request = market_request ex symbol ord_type vol sl tp cmt t;
                     (result, br') = order_send br request
                 in (case result of
                       None \<Rightarrow>
                         (Inr (failed_result None
                            (''MT5 order_send returned None (error: '' @ last_error br @ '')'')),
                          br')
                     | Some r \<Rightarrow>
                         if retcode r \<noteq> TRADE_RETCODE_DONE
                         then (Inr (failed_result (Some (order r))
                                 (str_int (retcode r) @ '': '' @ res_comment r)), br')
                         else (Inr \<lparr>success = True, order_ticket = Some (order r),
                                    volume = res_volume r, price = res_price r,
                                    comment = ''Success'', error_code = None,
                                    error_description = None\<rparr>, br'))))"

text \<open>
  Lines 283 to 341 of \<open>place_spread_orders\<close>: the volumes of the two legs and the
  figures that are logged with them.
\<close>

record volume_plan =
  hedge_ratio :: real
  gold_adjusted :: real
  silver_from_hedge :: real
  silver_adjusted :: real
  final_ratio :: real
  ratio_error :: real

definition leg_volume :: "symbol_info option \<Rightarrow> real \<Rightarrow> py_error + real" where
  "leg_volume info vol =
     (case info of
        Some i \<Rightarrow> spread_leg_volume vol (volume_step i) (volume_min i) (volume_max i)
      | None \<Rightarrow> Inr (py_round2 vol))"

definition spread_volumes ::
  "MT5TradeExecutor \<Rightarrow> mt5_terminal \<Rightarrow> real \<Rightarrow> real \<Rightarrow> py_error + volume_plan" where
  "spread_volumes ex br gold_volume0 silver_volume0 =
     (let gold_volume = gold_volume0 * volume_multiplier ex;
          silver_volume = silver_volume0 * volume_multiplier ex;
          hr = (if gold_volume > 0 then silver_volume / gold_volume else 1)
      in case leg_volume (symbols br (primary_symbol ex)) gold_volume of
           Inl e \<Rightarrow> Inl e
         | Inr ga \<Rightarrow>
             (case leg_volume (symbols br (secondary_symbol ex)) (ga * hr) of
                Inl e \<Rightarrow> Inl e
              | Inr sa \<Rightarrow>
                  let fr = (if ga > 0 then sa / ga else 0)
                  in Inr \<lparr>hedge_ratio = hr, gold_adjusted = ga, silver_from_hedge = ga * hr,
                          silver_adjusted = sa, final_ratio = fr,
                          ratio_error = (if hr > 0 then \<bar>fr - hr\<bar> / hr * 100 else 0)\<rparr>))"

text \<open>
  What \<open>place_spread_orders\<close> returns: the pair of results with the spread id (the
  two-element tuple of line 361), or with the spread id and the entry z-score, both
  \<open>None\<close> when the secondary leg failed (lines 385 and 396).
\<close>

datatype spread_return =
    Ret2 "TradeResult \<times> TradeResult" string
  | Ret3 "TradeResult \<times> TradeResult" "string option" "real option"

text \<open>
  Reading a local variable. \<open>spread_id\<close> is assigned at line 388 only, so it is a local
  of the function that has no value before that line.
\<close>

definition read_local :: "string \<Rightarrow> 'a option \<Rightarrow> py_error + 'a" where
  "read_local name v = (case v of None \<Rightarrow> Inl (UnboundLocalError name) | Some x \<Rightarrow> Inr x)"

definition place_spread_orders ::
  "MT5TradeExecutor \<Rightarrow> mt5_terminal \<Rightarrow> string \<Rightarrow> real \<Rightarrow> real \<Rightarrow> string \<Rightarrow> real \<Rightarrow>
   real option \<Rightarrow> real option \<Rightarrow> real option \<Rightarrow> real option \<Rightarrow>
   (py_error + spread_return) \<times> mt5_terminal" where
  "place_spread_orders ex br short_id gold_volume silver_volume side entry_zscore
       sl_gold tp_gold sl_silver tp_silver =
     (let gold_comment = ''ID:'' @ short_id;
          silver_comment = ''ID:'' @ short_id;
          spread_id = (None :: string option)
      in if py_upper side \<noteq> ''LONG'' \<and> py_upper side \<noteq> ''SHORT''
         then (Inl (ValueError (''Invalid side: '' @ side)), br)
         else
           let gold_type = (if py_upper side = ''LONG'' then ''BUY'' else ''SELL'');
               silver_type = (if py_upper side = ''LONG'' then ''SELL'' else ''BUY'')
           in case spread_volumes ex br gold_volume silver_volume of
                Inl e \<Rightarrow> (Inl e, br)
              | Inr plan \<Rightarrow>
                  (case place_order_no_adjustment ex br (primary_symbol ex) gold_type
                          (gold_adjusted plan) sl_gold tp_gold gold_comment of
                     (Inl e, br1) \<Rightarrow> (Inl e, br1)
                   | (Inr gold_result, br1) \<Rightarrow>
                       if \<not> success gold_result
                       then
                         (case read_local ''spread_id'' spread_id of
                            Inl e \<Rightarrow> (Inl e, br1)
                          | Inr sid \<Rightarrow>
                              (Inr (Ret2 (gold_result,
                                 failed_result None ''Gold order failed, Silver order skipped'')
                                 sid), br1))
                       else
                         (case place_order_no_adjustment ex br1 (secondary_symbol ex)
                                 silver_type (silver_adjusted plan) sl_silver tp_silver
                                 silver_comment of
                            (Inl e, br2) \<Rightarrow> (Inl e, br2)
                          | (Inr silver_result, br2) \<Rightarrow>
                              if \<not> success gold_result \<or> \<not> success silver_result
                              then (Inr (Ret3 (gold_result, silver_result) None None), br2)
                              else
                                (Inr (Ret3 (gold_result, silver_result)
                                   (Some (str_ticket (order_ticket gold_result) @ ''-'' @
                                          str_ticket (order_ticket silver_result)))
                                   (Some entry_zscore)), br2))))"

text \<open>The constructor's default arguments (lines 64 to 68).\<close>

definition MT5TradeExecutor_default :: MT5TradeExecutor where
  "MT5TradeExecutor_default =
     \<lparr>magic_number = 234000, volume_multiplier = 1.0,
      primary_symbol = ''XAUUSD'', secondary_symbol = ''XAGUSD''\<rparr>"

text \<open>
  A terminal for the examples: gold and silver with step 0.01 and limits 0.01 and 100, both
  visible and quoted, no request sent yet. Its answer to an order and its open positions
  are arguments. \<open>accept_order\<close> is the answer of a terminal that fills every order.
\<close>

definition demo_terminal ::
  "(order_request \<Rightarrow> order_send_result option) \<Rightarrow> (int \<rightharpoonup> mt5_position) \<Rightarrow> mt5_terminal" where
  "demo_terminal answer ps =
     \<lparr>symbols = [''XAUUSD'' \<mapsto> \<lparr>visible = True, volume_min = 0.01, volume_max = 100,
                                volume_step = 0.01\<rparr>,
                 ''XAGUSD'' \<mapsto> \<lparr>visible = True, volume_min = 0.01, volume_max = 100,
                                volume_step = 0.01\<rparr>],
      selectable = (\<lambda>s. True),
      ticks = [''XAUUSD'' \<mapsto> \<lparr>ask = 2651, bid = 2650\<rparr>,
               ''XAGUSD'' \<mapsto> \<lparr>ask = 31, bid = 30\<rparr>],
      positions = ps, respond = answer, last_error = ''(1, Success)'', requests = []\<rparr>"

definition accept_order :: "int \<Rightarrow> order_request \<Rightarrow> order_send_result option" where
  "accept_order ticket rq =
     Some \<lparr>retcode = TRADE_RETCODE_DONE, order = ticket, res_volume = req_volume rq,
           res_price = (case req_price rq of None \<Rightarrow> 0 | Some p \<Rightarrow> p),
           res_comment = ''Request executed''\<rparr>"

section \<open>The hybrid rebalancer (strategy/hybrid_rebalancer.py)\<close>

record RebalanceLevel =
  zscore :: real
  executed :: bool
  timestamp :: "real option"
  level_gold_lots :: real
  level_silver_lots :: real

text \<open>
  The \<open>reason\<close> of an adjustment is a message with two numbers printed in it; the
  model keeps which of the two messages it is and the two numbers (the absolute and the
  relative drift).
\<close>

datatype adjust_reason =
    Secondary_short real real
  | Secondary_long_buying_primary real real

record HedgeAdjustment =
  adj_spread_id :: string
  symbol :: string
  action :: string
  quantity :: real
  reason :: adjust_reason
  old_hedge :: real
  new_hedge :: real
  drift_pct :: real

text \<open>The dictionary that \<open>register_position\<close> builds for a position.\<close>

record position_data =
  spread_id :: string
  side :: string
  entry_zscore :: real
  entry_hedge_ratio :: real
  current_hedge_ratio :: real
  gold_lots :: real
  silver_lots :: real
  total_position_size :: real
  size_per_level :: real
  levels :: "RebalanceLevel list"
  total_executed :: nat
  entry_time :: real
  last_adjustment_time :: "real option"
  pos_primary_symbol :: string
  pos_secondary_symbol :: string

record HybridRebalancer =
  scale_interval :: real
  max_zscore :: real
  initial_fraction :: real
  hedge_drift_threshold :: real
  min_absolute_drift :: real
  min_adjustment_interval :: int
  enable_hedge_adjustment :: bool
  active_positions :: "string \<rightharpoonup> position_data"
  last_adjustment :: "string \<rightharpoonup> real"
  adjustment_history :: "HedgeAdjustment list"

definition HybridRebalancer_init ::
  "real \<Rightarrow> real \<Rightarrow> real \<Rightarrow> real \<Rightarrow> real \<Rightarrow> int \<Rightarrow> bool \<Rightarrow> HybridRebalancer" where
  "HybridRebalancer_init si mz ifr thr mad mai en =
     \<lparr>scale_interval = si, max_zscore = mz, initial_fraction = ifr,
      hedge_drift_threshold = thr, min_absolute_drift = mad, min_adjustment_interval = mai,
      enable_hedge_adjustment = en, active_positions = Map.empty,
      last_adjustment = Map.empty, adjustment_history = []\<rparr>"

text \<open>The constructor's default arguments (lines 60 to 70).\<close>

definition HybridRebalancer_default :: HybridRebalancer where
  "HybridRebalancer_default = HybridRebalancer_init 0.5 3.0 0.33 0.05 0.01 3600 True"

definition new_level :: "real \<Rightarrow> bool \<Rightarrow> RebalanceLevel" where
  "new_level z ex =
     \<lparr>zscore = z, executed = ex, timestamp = None, level_gold_lots = 0, level_silver_lots = 0\<rparr>"

text \<open>
  The \<open>while\<close> loop of \<open>calculate_pyramiding_levels\<close>. It steps down for LONG and up for
  any other side, and it need not end (a zero interval inside the band never leaves it),
  so not returning is the value \<open>None\<close>.
\<close>

partial_function (option) pyramid_loop ::
  "bool \<Rightarrow> real \<Rightarrow> real \<Rightarrow> real \<Rightarrow> real \<Rightarrow> RebalanceLevel list \<Rightarrow> RebalanceLevel list option"
where
  "pyramid_loop long max_z interval initial_zscore current_z acc =
     (if \<bar>current_z\<bar> < max_z
      then pyramid_loop long max_z interval initial_zscore
             (if long then current_z - interval else current_z + interval)
             (acc @ [new_level current_z (current_z = initial_zscore)])
      else Some acc)"

definition calculate_pyramiding_levels ::
  "HybridRebalancer \<Rightarrow> real \<Rightarrow> string \<Rightarrow> RebalanceLevel list option" where
  "calculate_pyramiding_levels rb initial_zscore sd =
     (if sd = ''LONG''
      then (case pyramid_loop True (max_zscore rb) (scale_interval rb) initial_zscore
                   initial_zscore [] of
              None \<Rightarrow> None
            | Some ls \<Rightarrow> Some (ls @ [new_level (- max_zscore rb) False]))
      else (case pyramid_loop False (max_zscore rb) (scale_interval rb) initial_zscore
                   initial_zscore [] of
              None \<Rightarrow> None
            | Some ls \<Rightarrow> Some (ls @ [new_level (max_zscore rb) False])))"

definition register_position ::
  "HybridRebalancer \<Rightarrow> real \<Rightarrow> string \<Rightarrow> string \<Rightarrow> real \<Rightarrow> real \<Rightarrow> real \<Rightarrow> real \<Rightarrow> real \<Rightarrow>
   string \<Rightarrow> string \<Rightarrow> (py_error + position_data \<times> HybridRebalancer) option" where
  "register_position rb now sid sd entry_z entry_hr g_lots s_lots total_size psym ssym =
     (case calculate_pyramiding_levels rb entry_z sd of
        None \<Rightarrow> None
      | Some [] \<Rightarrow> Some (Inl IndexError)
      | Some (l0 # rest) \<Rightarrow>
          let lvls = l0\<lparr>executed := True, timestamp := Some now,
                        level_gold_lots := g_lots, level_silver_lots := s_lots\<rparr> # rest;
              pd = \<lparr>spread_id = sid, side = sd, entry_zscore = entry_z,
                    entry_hedge_ratio = entry_hr, current_hedge_ratio = entry_hr,
                    gold_lots = g_lots, silver_lots = s_lots, total_position_size = total_size,
                    size_per_level = total_size / of_nat (length lvls), levels = lvls,
                    total_executed = 1, entry_time = now, last_adjustment_time = None,
                    pos_primary_symbol = psym, pos_secondary_symbol = ssym\<rparr>
          in Some (Inr (pd, rb\<lparr>active_positions := (active_positions rb)(sid \<mapsto> pd),
                               last_adjustment := (last_adjustment rb)(sid \<mapsto> now)\<rparr>)))"

definition check_hedge_drift ::
  "HybridRebalancer \<Rightarrow> real \<Rightarrow> string \<Rightarrow> real \<Rightarrow> HedgeAdjustment option" where
  "check_hedge_drift rb now sid hr =
     (if \<not> enable_hedge_adjustment rb then None
      else case active_positions rb sid of
        None \<Rightarrow> None
      | Some position \<Rightarrow>
          let last_adj = (case last_adjustment rb sid of None \<Rightarrow> 0 | Some t \<Rightarrow> t);
              time_since_last = now - last_adj
          in if time_since_last < of_int (min_adjustment_interval rb) then None
             else
               let primary_lots = gold_lots position;
                   secondary_lots = silver_lots position;
                   target_secondary_lots = primary_lots * hr
               in if target_secondary_lots = 0 then None
                  else
                    let drift = target_secondary_lots - secondary_lots;
                        dpct = \<bar>drift\<bar> / target_secondary_lots;
                        abs_drift = \<bar>drift\<bar>;
                        percentage_exceeded = (dpct \<ge> hedge_drift_threshold rb);
                        absolute_exceeded = (abs_drift \<ge> min_absolute_drift rb)
                    in if \<not> percentage_exceeded \<and> \<not> absolute_exceeded then None
                       else if drift > 0
                       then Some \<lparr>adj_spread_id = sid,
                                  symbol = pos_secondary_symbol position,
                                  action = ''BUY'', quantity = abs_drift,
                                  reason = Secondary_short abs_drift dpct,
                                  old_hedge = current_hedge_ratio position,
                                  new_hedge = hr, drift_pct = dpct\<rparr>
                       else Some \<lparr>adj_spread_id = sid,
                                  symbol = pos_primary_symbol position,
                                  action = ''BUY'', quantity = abs_drift / hr,
                                  reason = Secondary_long_buying_primary abs_drift dpct,
                                  old_hedge = current_hedge_ratio position,
                                  new_hedge = hr, drift_pct = dpct\<rparr>)"

definition mark_hedge_adjusted ::
  "HybridRebalancer \<Rightarrow> real \<Rightarrow> string \<Rightarrow> HedgeAdjustment \<Rightarrow> real \<Rightarrow> HybridRebalancer" where
  "mark_hedge_adjusted rb now sid adjustment executed_quantity =
     (case active_positions rb sid of
        None \<Rightarrow> rb
      | Some position \<Rightarrow>
          let position' =
                position\<lparr>silver_lots :=
                            (if action adjustment = ''BUY''
                             then silver_lots position + executed_quantity
                             else silver_lots position - executed_quantity),
                          current_hedge_ratio := new_hedge adjustment,
                          last_adjustment_time := Some now\<rparr>
          in rb\<lparr>active_positions := (active_positions rb)(sid \<mapsto> position'),
                 last_adjustment := (last_adjustment rb)(sid \<mapsto> now),
                 adjustment_history := adjustment_history rb @ [adjustment]\<rparr>)"

text \<open>
  \<open>mark_pyramiding_executed\<close> (its loop marks the first level within 0.01 of the z-score)
  and \<open>remove_position\<close>.
\<close>

fun mark_level :: "RebalanceLevel list \<Rightarrow> real \<Rightarrow> real \<Rightarrow> real \<Rightarrow> real \<Rightarrow> RebalanceLevel list" where
  "mark_level [] z now g s = []"
| "mark_level (l # ls) z now g s =
     (if \<bar>zscore l - z\<bar> < 0.01
      then l\<lparr>executed := True, timestamp := Some now,
             level_gold_lots := g, level_silver_lots := s\<rparr> # ls
      else l # mark_level ls z now g s)"

definition mark_pyramiding_executed ::
  "HybridRebalancer \<Rightarrow> real \<Rightarrow> string \<Rightarrow> real \<Rightarrow> real \<Rightarrow> real \<Rightarrow> HybridRebalancer" where
  "mark_pyramiding_executed rb now sid z g s =
     (case active_positions rb sid of
        None \<Rightarrow> rb
      | Some position \<Rightarrow>
          rb\<lparr>active_positions := (active_positions rb)(sid \<mapsto>
               position\<lparr>levels := mark_level (levels position) z now g s,
                          gold_lots := gold_lots position + g,
                          silver_lots := silver_lots position + s,
                          total_executed := total_executed position + 1\<rparr>)\<rparr>)"

definition remove_position :: "HybridRebalancer \<Rightarrow> string \<Rightarrow> HybridRebalancer" where
  "remove_position rb sid =
     rb\<lparr>active_positions := (active_positions rb)(sid := None),
        last_adjustment := (last_adjustment rb)(sid := None)\<rparr>"

text \<open>
  The calls that change the rebalancer, each with the clock reading at the call, and a run
  of such calls. \<open>check_pyramiding\<close>, \<open>check_hedge_drift\<close> and \<open>check_all_rebalancing\<close> only
  read. A registration that raises leaves the rebalancer as it was; one that does not
  return makes the run not return.
\<close>

datatype rebalancer_call =
    Register string string real real real real real string string
  | Mark_pyramiding string real real real
  | Mark_hedge string HedgeAdjustment real
  | Remove string

fun run_call :: "HybridRebalancer \<Rightarrow> real \<times> rebalancer_call \<Rightarrow> HybridRebalancer option" where
  "run_call rb (now, Register sid sd z ehr g s total_size psym ssym) =
     (case register_position rb now sid sd z ehr g s total_size psym ssym of
        None \<Rightarrow> None
      | Some (Inl e) \<Rightarrow> Some rb
      | Some (Inr (pd, rb')) \<Rightarrow> Some rb')"
| "run_call rb (now, Mark_pyramiding sid z g s) = Some (mark_pyramiding_executed rb now sid z g s)"
| "run_call rb (now, Mark_hedge sid adj q) = Some (mark_hedge_adjusted rb now sid adj q)"
| "run_call rb (now, Remove sid) = Some (remove_position rb sid)"

fun run_calls :: "HybridRebalancer \<Rightarrow> (real \<times> rebalancer_call) list \<Rightarrow> HybridRebalancer option" where
  "run_calls rb [] = Some rb"
| "run_calls rb (c # cs) =
     (case run_call rb c of None \<Rightarrow> None | Some rb' \<Rightarrow> run_calls rb' cs)"

text \<open>
  The state of a spread registered at \<open>t0\<close>: it is no longer tracked, or its last
  adjustment is not before \<open>t0\<close>.
\<close>

definition cooling :: "real \<Rightarrow> string \<Rightarrow> int \<Rightarrow> HybridRebalancer \<Rightarrow> bool" where
  "cooling t0 sid mai rb =
     (min_adjustment_interval rb = mai
      \<and> (active_positions rb sid = None
          \<or> (\<exists>t. last_adjustment rb sid = Some t \<and> t0 \<le> t)))"

text \<open>
  A state that the program reaches: the rebalancer built with its default arguments, after
  \<open>register_position\<close> at time \<open>t0\<close> for a LONG spread \<open>s1\<close> of gold against silver
  entered at z-score -2 with hedge ratio 0.7179 and the given lots.
\<close>

definition registered_at_defaults :: "real \<Rightarrow> real \<Rightarrow> real \<Rightarrow> HybridRebalancer" where
  "registered_at_defaults t0 g s =
     (case register_position HybridRebalancer_default t0 ''s1'' ''LONG'' (- 2) 0.7179 g s 0.15
             ''XAUUSD'' ''XAGUSD'' of
        Some (Inr (pd, rb)) \<Rightarrow> rb
      | _ \<Rightarrow> HybridRebalancer_default)"

section \<open>Setups and their recovery (core/setup_tracker.py, core/setup_recovery.py)\<close>

record SetupPosition =
  sp_spread_id :: string
  short_id :: string
  mt5_primary_ticket :: int
  mt5_secondary_ticket :: int
  sp_entry_zscore :: real
  primary_lots :: real
  secondary_lots :: real
  level :: string
  sp_timestamp :: string

record Setup =
  setup_id :: string
  setup_entry_time :: string
  setup_entry_zscore :: real
  exit_zscore :: "real option"
  setup_side :: string
  pair :: string
  setup_entry_hedge_ratio :: real
  setup_positions :: "SetupPosition list"
  status :: string
  last_updated :: string

text \<open>
  The tracker holds the active setups in memory and writes one detail file per setup and
  an index of the active setup ids. The model keeps the files' contents; a write that
  fails is caught and logged by the source and is not modelled.
\<close>

record SetupTracker =
  active_setups :: "string \<rightharpoonup> Setup"
  setup_files :: "string \<rightharpoonup> Setup"
  setups_index :: "string set"

definition save_setup :: "SetupTracker \<Rightarrow> Setup \<Rightarrow> SetupTracker" where
  "save_setup tr s =
     tr\<lparr>setup_files := (setup_files tr)(setup_id s \<mapsto> s),
        setups_index := dom (active_setups tr)\<rparr>"

definition close_setup :: "SetupTracker \<Rightarrow> string \<Rightarrow> string \<Rightarrow> real \<Rightarrow> SetupTracker" where
  "close_setup tr now_iso sid exit_z =
     (case active_setups tr sid of
        None \<Rightarrow> tr
      | Some s \<Rightarrow>
          let s' = s\<lparr>status := ''CLOSED'', exit_zscore := Some exit_z,
                      last_updated := now_iso\<rparr>;
              tr1 = save_setup (tr\<lparr>active_setups := (active_setups tr)(sid \<mapsto> s')\<rparr>) s';
              tr2 = tr1\<lparr>active_setups := (active_setups tr1)(sid := None)\<rparr>
          in tr2\<lparr>setups_index := dom (active_setups tr2)\<rparr>)"

definition get_all_setup_tickets :: "SetupTracker \<Rightarrow> string \<Rightarrow> int list" where
  "get_all_setup_tickets tr sid =
     (case active_setups tr sid of
        None \<Rightarrow> []
      | Some s \<Rightarrow>
          concat (map (\<lambda>p. [mt5_primary_ticket p, mt5_secondary_ticket p])
                    (setup_positions s)))"

text \<open>
  The \<open>for\<close> loop of \<open>close_all_positions_in_setup\<close>, with its two accumulators
  \<open>success_count\<close> and \<open>failed_tickets\<close>. A ticket that the terminal no longer has is
  passed over by \<open>continue\<close>: neither accumulator changes. \<open>close_request\<close> is the
  request of lines 94 to 111, an opposite deal on the position's ticket.
\<close>

definition close_request :: "string \<Rightarrow> int \<Rightarrow> mt5_position \<Rightarrow> order_request" where
  "close_request sid ticket position =
     (let close_type = (if p_type position = ORDER_TYPE_BUY
                        then ORDER_TYPE_SELL else ORDER_TYPE_BUY)
      in \<lparr>req_symbol = p_symbol position, req_volume = p_volume position,
          req_type = close_type, req_price = None, req_deviation = None,
          req_magic = p_magic position, req_comment = ''CLOSE_SETUP_'' @ sid,
          req_position = Some ticket, req_sl = None, req_tp = None\<rparr>)"

fun close_tickets ::
  "string \<Rightarrow> int list \<Rightarrow> mt5_terminal \<Rightarrow> nat \<Rightarrow> int list \<Rightarrow> nat \<times> int list \<times> mt5_terminal"
where
  "close_tickets sid [] br success_count failed_tickets = (success_count, failed_tickets, br)"
| "close_tickets sid (ticket # ts) br success_count failed_tickets =
     (case positions br ticket of
        None \<Rightarrow> close_tickets sid ts br success_count failed_tickets
      | Some position \<Rightarrow>
          let request = close_request sid ticket position;
              (result, br') = order_send br request
          in (case result of
                None \<Rightarrow> close_tickets sid ts br' success_count (failed_tickets @ [ticket])
              | Some r \<Rightarrow>
                  if retcode r \<noteq> TRADE_RETCODE_DONE
                  then close_tickets sid ts br' success_count (failed_tickets @ [ticket])
                  else close_tickets sid ts br' (success_count + 1) failed_tickets))"

definition close_all_positions_in_setup ::
  "SetupTracker \<Rightarrow> mt5_terminal \<Rightarrow> string \<Rightarrow> string \<Rightarrow> bool \<times> SetupTracker \<times> mt5_terminal"
where
  "close_all_positions_in_setup tr br now_iso sid =
     (let tickets = get_all_setup_tickets tr sid
      in if tickets = [] then (False, tr, br)
         else
           let (success_count, failed_tickets, br') = close_tickets sid tickets br 0 []
           in if success_count = length tickets
              then (True, close_setup tr now_iso sid 0.0, br')
              else (False, tr, br'))"

text \<open>
  A tracker for the examples: one active setup with one position, whose primary ticket is
  101 and whose secondary ticket is 102, and the open secondary position of that ticket.
\<close>

definition demo_setup :: Setup where
  "demo_setup =
     \<lparr>setup_id = ''setup_1'', setup_entry_time = ''2025-01-01T12:00:00'',
      setup_entry_zscore = - 2, exit_zscore = None, setup_side = ''LONG'',
      pair = ''XAU/XAG'', setup_entry_hedge_ratio = 0.7179,
      setup_positions =
        [\<lparr>sp_spread_id = ''101-102'', short_id = ''120000'', mt5_primary_ticket = 101,
          mt5_secondary_ticket = 102, sp_entry_zscore = - 2, primary_lots = 0.01,
          secondary_lots = 0.1, level = ''initial'',
          sp_timestamp = ''2025-01-01T12:00:00''\<rparr>],
      status = ''ACTIVE'', last_updated = ''2025-01-01T12:00:00''\<rparr>"

definition demo_tracker :: SetupTracker where
  "demo_tracker =
     \<lparr>active_setups = [''setup_1'' \<mapsto> demo_setup],
      setup_files = [''setup_1'' \<mapsto> demo_setup],
      setups_index = {''setup_1''}\<rparr>"

definition demo_silver_position :: mt5_position where
  "demo_silver_position =
     \<lparr>p_type = ORDER_TYPE_SELL, p_symbol = ''XAGUSD'', p_volume = 0.1, p_magic = 234000\<rparr>"

section \<open>Properties of volume quantization\<close>












section \<open>Properties of the hedge drift check\<close>

lemma default_levels:
  "calculate_pyramiding_levels HybridRebalancer_default (- 2) ''LONG'' =
     Some [new_level (- 2) True, new_level (- 5 / 2) False, new_level (- 3) False]"
  by (simp add: calculate_pyramiding_levels_def HybridRebalancer_default_def
        HybridRebalancer_init_def pyramid_loop.simps)

lemma registered_fields:
  "enable_hedge_adjustment (registered_at_defaults t0 g s)"
  "hedge_drift_threshold (registered_at_defaults t0 g s) = 5 / 100"
  "min_absolute_drift (registered_at_defaults t0 g s) = 1 / 100"
  "min_adjustment_interval (registered_at_defaults t0 g s) = 3600"
  "last_adjustment (registered_at_defaults t0 g s) ''s1'' = Some t0"
  "adjustment_history (registered_at_defaults t0 g s) = []"
  unfolding registered_at_defaults_def register_position_def default_levels
  by (simp_all add: Let_def new_level_def HybridRebalancer_default_def HybridRebalancer_init_def)

lemma registered_position:
  "\<exists>p. active_positions (registered_at_defaults t0 g s) ''s1'' = Some p
     \<and> gold_lots p = g \<and> silver_lots p = s \<and> current_hedge_ratio p = 7179 / 10000
     \<and> pos_primary_symbol p = ''XAUUSD'' \<and> pos_secondary_symbol p = ''XAGUSD''"
  unfolding registered_at_defaults_def register_position_def default_levels
  by (simp add: Let_def new_level_def HybridRebalancer_default_def HybridRebalancer_init_def)

lemma check_hedge_drift_iff:
  assumes en: "enable_hedge_adjustment rb"
    and pos: "active_positions rb sid = Some p"
    and cool: "\<not> now - (case last_adjustment rb sid of None \<Rightarrow> 0 | Some t \<Rightarrow> t)
                   < of_int (min_adjustment_interval rb)"
    and tgt: "gold_lots p * hr \<noteq> 0"
  shows "(check_hedge_drift rb now sid hr \<noteq> None) =
           (hedge_drift_threshold rb \<le> \<bar>gold_lots p * hr - silver_lots p\<bar> / (gold_lots p * hr)
            \<or> min_absolute_drift rb \<le> \<bar>gold_lots p * hr - silver_lots p\<bar>)"
  using assms by (auto simp: check_hedge_drift_def Let_def)

lemma check_hedge_drift_Some:
  assumes "check_hedge_drift rb now sid hr = Some adj"
    and "active_positions rb sid = Some p"
  shows "action adj = ''BUY'' \<and> new_hedge adj = hr \<and> old_hedge adj = current_hedge_ratio p
     \<and> adj_spread_id adj = sid
     \<and> drift_pct adj = \<bar>gold_lots p * hr - silver_lots p\<bar> / (gold_lots p * hr)
     \<and> symbol adj = (if 0 < gold_lots p * hr - silver_lots p
                      then pos_secondary_symbol p else pos_primary_symbol p)
     \<and> quantity adj = (if 0 < gold_lots p * hr - silver_lots p
                        then \<bar>gold_lots p * hr - silver_lots p\<bar>
                        else \<bar>gold_lots p * hr - silver_lots p\<bar> / hr)"
  using assms by (auto simp: check_hedge_drift_def Let_def split: if_splits)


text \<open>
  Claim C2. For a registered position, with hedge adjustment enabled and the cooldown
  over, and a target secondary \<open>primary_lots * current_hedge_ratio\<close> that is not zero,
  \<open>check_hedge_drift\<close> returns an adjustment exactly when the relative drift reaches
  \<open>hedge_drift_threshold\<close> or the absolute drift reaches \<open>min_absolute_drift\<close>. With the
  default thresholds, 0.05 primary lots, 0.02 secondary lots and ratio 0.7179 it returns
  BUY 0.015895 lots of the secondary instrument, which is 0.0159 to four places.
\<close>

theorem check_hedge_drift_dual_threshold:
  assumes en: "enable_hedge_adjustment rb"
    and pos: "active_positions rb sid = Some p"
    and cool: "\<not> now - (case last_adjustment rb sid of None \<Rightarrow> 0 | Some t \<Rightarrow> t)
                   < of_int (min_adjustment_interval rb)"
  shows "(gold_lots p * hr \<noteq> 0 \<longrightarrow>
            (check_hedge_drift rb now sid hr \<noteq> None) =
              (hedge_drift_threshold rb
                 \<le> \<bar>gold_lots p * hr - silver_lots p\<bar> / (gold_lots p * hr)
               \<or> min_absolute_drift rb \<le> \<bar>gold_lots p * hr - silver_lots p\<bar>))
       \<and> (hedge_drift_threshold rb = 5 / 100 \<and> min_absolute_drift rb = 1 / 100
            \<and> gold_lots p = 5 / 100 \<and> silver_lots p = 2 / 100 \<and> hr = 7179 / 10000 \<longrightarrow>
            (\<exists>adj. check_hedge_drift rb now sid hr = Some adj
               \<and> action adj = ''BUY'' \<and> symbol adj = pos_secondary_symbol p
               \<and> quantity adj = 15895 / 1000000
               \<and> \<bar>quantity adj - 159 / 10000\<bar> < 1 / 10000))"
proof (intro conjI impI)
  assume "gold_lots p * hr \<noteq> 0"
  with en pos cool
  show "(check_hedge_drift rb now sid hr \<noteq> None) =
          (hedge_drift_threshold rb
             \<le> \<bar>gold_lots p * hr - silver_lots p\<bar> / (gold_lots p * hr)
           \<or> min_absolute_drift rb \<le> \<bar>gold_lots p * hr - silver_lots p\<bar>)"
    by (rule check_hedge_drift_iff)
next
  assume ex: "hedge_drift_threshold rb = 5 / 100 \<and> min_absolute_drift rb = 1 / 100
            \<and> gold_lots p = 5 / 100 \<and> silver_lots p = 2 / 100 \<and> hr = 7179 / 10000"
  then have thr: "hedge_drift_threshold rb = 5 / 100"
    and lots: "gold_lots p = 5 / 100" "silver_lots p = 2 / 100"
    and hr: "hr = 7179 / 10000"
    by blast+
  have tgt: "gold_lots p * hr \<noteq> 0"
    unfolding lots hr by simp
  have "check_hedge_drift rb now sid hr \<noteq> None"
    unfolding check_hedge_drift_iff [OF en pos cool tgt]
    unfolding lots hr thr by simp
  then obtain adj where adj: "check_hedge_drift rb now sid hr = Some adj" by blast
  have "action adj = ''BUY'' \<and> symbol adj = pos_secondary_symbol p
          \<and> quantity adj = 15895 / 1000000"
    using check_hedge_drift_Some [OF adj pos] unfolding lots hr by simp
  with adj show "\<exists>adj. check_hedge_drift rb now sid hr = Some adj
               \<and> action adj = ''BUY'' \<and> symbol adj = pos_secondary_symbol p
               \<and> quantity adj = 15895 / 1000000
               \<and> \<bar>quantity adj - 159 / 10000\<bar> < 1 / 10000"
    by simp
qed

theorem check_hedge_drift_dual_threshold_witness:
  "enable_hedge_adjustment (registered_at_defaults 0 (5 / 100) (2 / 100))
   \<and> \<not> (3600 :: real) - 0 < of_int 3600
   \<and> check_hedge_drift (registered_at_defaults 0 (5 / 100) (2 / 100)) 3600 ''s1''
         (7179 / 10000) \<noteq> None
   \<and> map_option action (check_hedge_drift (registered_at_defaults 0 (5 / 100) (2 / 100))
         3600 ''s1'' (7179 / 10000)) = Some ''BUY''
   \<and> map_option symbol (check_hedge_drift (registered_at_defaults 0 (5 / 100) (2 / 100))
         3600 ''s1'' (7179 / 10000)) = Some ''XAGUSD''
   \<and> map_option quantity (check_hedge_drift (registered_at_defaults 0 (5 / 100) (2 / 100))
         3600 ''s1'' (7179 / 10000)) = Some (15895 / 1000000)"
proof -
  let ?rb = "registered_at_defaults 0 (5 / 100) (2 / 100)"
  obtain p where p: "active_positions ?rb ''s1'' = Some p"
    and lots: "gold_lots p = 5 / 100" "silver_lots p = 2 / 100"
    and sym: "pos_secondary_symbol p = ''XAGUSD''"
    using registered_position [of 0 "5 / 100" "2 / 100"] by blast
  have en: "enable_hedge_adjustment ?rb" by (rule registered_fields)
  have cool: "\<not> 3600 - (case last_adjustment ?rb ''s1'' of None \<Rightarrow> 0 | Some t \<Rightarrow> t)
                 < of_int (min_adjustment_interval ?rb)"
    by (simp add: registered_fields)
  from check_hedge_drift_dual_threshold [OF en p cool, of "7179 / 10000"]
  obtain adj where "check_hedge_drift ?rb 3600 ''s1'' (7179 / 10000) = Some adj"
    and "action adj = ''BUY''" "symbol adj = pos_secondary_symbol p"
    and "quantity adj = 15895 / 1000000"
    using lots by (auto simp: registered_fields)
  with en sym show ?thesis by simp
qed

text \<open>
  Claim C3. Every adjustment that \<open>check_hedge_drift\<close> returns is a BUY: of \<open>|drift|\<close>
  lots of the secondary instrument when the drift (target minus actual secondary) is
  positive, of \<open>|drift| / current_hedge_ratio\<close> lots of the primary instrument when it is
  negative. No adjustment sells.
\<close>

theorem hedge_adjustment_direction:
  assumes adj: "check_hedge_drift rb now sid hr = Some adj"
    and pos: "active_positions rb sid = Some p"
  shows "action adj = ''BUY''
       \<and> (0 < gold_lots p * hr - silver_lots p \<longrightarrow>
            symbol adj = pos_secondary_symbol p
            \<and> quantity adj = \<bar>gold_lots p * hr - silver_lots p\<bar>)
       \<and> (gold_lots p * hr - silver_lots p < 0 \<longrightarrow>
            symbol adj = pos_primary_symbol p
            \<and> quantity adj = \<bar>gold_lots p * hr - silver_lots p\<bar> / hr)"
  using check_hedge_drift_Some [OF adj pos] by simp

theorem hedge_adjustment_direction_witness:
  "map_option action (check_hedge_drift (registered_at_defaults 0 (5 / 100) (2 / 100))
       3600 ''s1'' (7179 / 10000)) = Some ''BUY''
   \<and> map_option symbol (check_hedge_drift (registered_at_defaults 0 (5 / 100) (2 / 100))
       3600 ''s1'' (7179 / 10000)) = Some ''XAGUSD''
   \<and> map_option quantity (check_hedge_drift (registered_at_defaults 0 (5 / 100) (2 / 100))
       3600 ''s1'' (7179 / 10000)) = Some (15895 / 1000000)
   \<and> map_option action (check_hedge_drift (registered_at_defaults 0 (5 / 100) (5 / 100))
       3600 ''s1'' (7179 / 10000)) = Some ''BUY''
   \<and> map_option symbol (check_hedge_drift (registered_at_defaults 0 (5 / 100) (5 / 100))
       3600 ''s1'' (7179 / 10000)) = Some ''XAUUSD''
   \<and> map_option quantity (check_hedge_drift (registered_at_defaults 0 (5 / 100) (5 / 100))
       3600 ''s1'' (7179 / 10000)) = Some ((14105 / 1000000) / (7179 / 10000))"
proof -
  let ?a = "registered_at_defaults 0 (5 / 100) (2 / 100)"
  let ?b = "registered_at_defaults 0 (5 / 100) (5 / 100)"
  obtain p where p: "active_positions ?a ''s1'' = Some p"
    and pl: "gold_lots p = 5 / 100" "silver_lots p = 2 / 100"
    and ps: "pos_secondary_symbol p = ''XAGUSD''"
    using registered_position [of 0 "5 / 100" "2 / 100"] by blast
  obtain q where q: "active_positions ?b ''s1'' = Some q"
    and ql: "gold_lots q = 5 / 100" "silver_lots q = 5 / 100"
    and qs: "pos_primary_symbol q = ''XAUUSD''"
    using registered_position [of 0 "5 / 100" "5 / 100"] by blast
  have cool: "\<not> 3600 - (case last_adjustment (registered_at_defaults 0 g s) ''s1'' of
                           None \<Rightarrow> 0 | Some t \<Rightarrow> t)
                 < of_int (min_adjustment_interval (registered_at_defaults 0 g s))" for g s
    by (simp add: registered_fields)
  have "gold_lots p * (7179 / 10000) \<noteq> 0"
    and "min_absolute_drift ?a \<le> \<bar>gold_lots p * (7179 / 10000) - silver_lots p\<bar>"
    by (simp_all add: pl registered_fields)
  with check_hedge_drift_iff [OF registered_fields(1) p cool, of "7179 / 10000"]
  obtain x where x: "check_hedge_drift ?a 3600 ''s1'' (7179 / 10000) = Some x" by blast
  have "gold_lots q * (7179 / 10000) \<noteq> 0"
    and "min_absolute_drift ?b \<le> \<bar>gold_lots q * (7179 / 10000) - silver_lots q\<bar>"
    by (simp_all add: ql registered_fields)
  with check_hedge_drift_iff [OF registered_fields(1) q cool, of "7179 / 10000"]
  obtain y where y: "check_hedge_drift ?b 3600 ''s1'' (7179 / 10000) = Some y" by blast
  from hedge_adjustment_direction [OF x p] hedge_adjustment_direction [OF y q]
  show ?thesis unfolding x y pl ql ps qs by simp
qed


section \<open>Properties of registration\<close>

text \<open>
  With a positive \<open>scale_interval\<close> the ladder loop ends, so \<open>register_position\<close>
  returns, and it returns a position (the ladder always has its forced last level).
\<close>

lemma register_position_Inr:
  assumes "register_position rb t0 sid sd z ehr g s tot ps ss = Some (Inr (pd, rb'))"
  shows "rb' = rb\<lparr>active_positions := (active_positions rb)(sid \<mapsto> pd),
                    last_adjustment := (last_adjustment rb)(sid \<mapsto> t0)\<rparr>
       \<and> gold_lots pd = g \<and> silver_lots pd = s \<and> current_hedge_ratio pd = ehr"
  using assms
  by (auto simp: register_position_def Let_def split: option.splits list.splits)

lemma pyramid_loop_long_returns:
  assumes "0 < interval"
  shows "\<exists>ls. pyramid_loop True mx interval z0 z acc = Some ls"
proof (induction "nat \<lceil>(z + mx) / interval\<rceil>" arbitrary: z acc rule: less_induct)
  case less
  show ?case
  proof (cases "\<bar>z\<bar> < mx")
    case False
    then show ?thesis by (subst pyramid_loop.simps) simp
  next
    case True
    then have "0 < (z + mx) / interval" using assms by simp
    then have pos: "0 < \<lceil>(z + mx) / interval\<rceil>" by simp
    have "(z - interval + mx) / interval = (z + mx) / interval - 1"
      using assms by (simp add: field_simps)
    then have "\<lceil>(z - interval + mx) / interval\<rceil> = \<lceil>(z + mx) / interval\<rceil> - 1"
      by simp
    with pos have "nat \<lceil>(z - interval + mx) / interval\<rceil> < nat \<lceil>(z + mx) / interval\<rceil>"
      by simp
    from less [OF this] True show ?thesis
      by (subst pyramid_loop.simps) simp
  qed
qed

lemma pyramid_loop_short_returns:
  assumes "0 < interval"
  shows "\<exists>ls. pyramid_loop False mx interval z0 z acc = Some ls"
proof (induction "nat \<lceil>(mx - z) / interval\<rceil>" arbitrary: z acc rule: less_induct)
  case less
  show ?case
  proof (cases "\<bar>z\<bar> < mx")
    case False
    then show ?thesis by (subst pyramid_loop.simps) simp
  next
    case True
    then have "0 < (mx - z) / interval" using assms by simp
    then have pos: "0 < \<lceil>(mx - z) / interval\<rceil>" by simp
    have "(mx - (z + interval)) / interval = (mx - z) / interval - 1"
      using assms by (simp add: field_simps)
    then have "\<lceil>(mx - (z + interval)) / interval\<rceil> = \<lceil>(mx - z) / interval\<rceil> - 1"
      by simp
    with pos have "nat \<lceil>(mx - (z + interval)) / interval\<rceil> < nat \<lceil>(mx - z) / interval\<rceil>"
      by simp
    from less [OF this] True show ?thesis
      by (subst pyramid_loop.simps) simp
  qed
qed

lemma calculate_pyramiding_levels_returns:
  assumes "0 < scale_interval rb"
  shows "\<exists>l ls. calculate_pyramiding_levels rb z sd = Some (l # ls)"
proof -
  obtain xs ys where "pyramid_loop True (max_zscore rb) (scale_interval rb) z z [] = Some xs"
    and "pyramid_loop False (max_zscore rb) (scale_interval rb) z z [] = Some ys"
    using pyramid_loop_long_returns [OF assms] pyramid_loop_short_returns [OF assms] by blast
  then show ?thesis
    by (cases xs; cases ys) (simp_all add: calculate_pyramiding_levels_def)
qed

lemma register_position_returns:
  assumes "0 < scale_interval rb"
  shows "\<exists>pd rb'. register_position rb t0 sid sd z ehr g s tot ps ss = Some (Inr (pd, rb'))"
proof -
  from calculate_pyramiding_levels_returns [OF assms]
  obtain l ls where "calculate_pyramiding_levels rb z sd = Some (l # ls)" by blast
  then show ?thesis by (simp add: register_position_def Let_def)
qed

lemma register_cooling:
  assumes c: "cooling t0 sid mai rb" and t: "t0 \<le> now"
    and reg: "register_position rb now sid' sd z ehr g s total_size psym ssym
                = Some (Inr (pd, rb'))"
  shows "cooling t0 sid mai rb'"
proof -
  from register_position_Inr [OF reg]
  have rb': "rb' = rb\<lparr>active_positions := (active_positions rb)(sid' \<mapsto> pd),
                        last_adjustment := (last_adjustment rb)(sid' \<mapsto> now)\<rparr>"
    by blast
  show ?thesis
  proof (cases "sid' = sid")
    case True
    with c t show ?thesis by (simp add: cooling_def rb')
  next
    case False
    with c show ?thesis by (simp add: cooling_def rb')
  qed
qed

lemma mark_pyramiding_cooling:
  assumes c: "cooling t0 sid mai rb"
  shows "cooling t0 sid mai (mark_pyramiding_executed rb now sid' z g s)"
proof (cases "active_positions rb sid'")
  case None
  with c show ?thesis by (simp add: mark_pyramiding_executed_def)
next
  case (Some p)
  show ?thesis
  proof (cases "sid' = sid")
    case True
    with c Some show ?thesis by (simp add: cooling_def mark_pyramiding_executed_def)
  next
    case False
    with c Some show ?thesis by (simp add: cooling_def mark_pyramiding_executed_def)
  qed
qed

lemma mark_hedge_cooling:
  assumes c: "cooling t0 sid mai rb" and t: "t0 \<le> now"
  shows "cooling t0 sid mai (mark_hedge_adjusted rb now sid' adj q)"
proof (cases "active_positions rb sid'")
  case None
  with c show ?thesis by (simp add: mark_hedge_adjusted_def)
next
  case (Some p)
  show ?thesis
  proof (cases "sid' = sid")
    case True
    with c t Some show ?thesis by (simp add: cooling_def mark_hedge_adjusted_def Let_def)
  next
    case False
    with c Some show ?thesis by (simp add: cooling_def mark_hedge_adjusted_def Let_def)
  qed
qed

lemma remove_cooling:
  assumes c: "cooling t0 sid mai rb"
  shows "cooling t0 sid mai (remove_position rb sid')"
proof (cases "sid' = sid")
  case True
  with c show ?thesis by (simp add: cooling_def remove_position_def)
next
  case False
  with c show ?thesis by (simp add: cooling_def remove_position_def)
qed

lemma run_call_cooling:
  assumes c: "cooling t0 sid mai rb" and t: "t0 \<le> fst cl" and run: "run_call rb cl = Some rb'"
  shows "cooling t0 sid mai rb'"
proof (cases cl)
  case (Pair now call)
  with t have now: "t0 \<le> now" by simp
  show ?thesis
  proof (cases call)
    case (Register sid' sd z ehr g s total_size psym ssym)
    show ?thesis
    proof (cases "register_position rb now sid' sd z ehr g s total_size psym ssym")
      case None
      with run Pair Register show ?thesis by simp
    next
      case (Some r)
      show ?thesis
      proof (cases r)
        case (Inl e)
        with run Pair Register Some c show ?thesis by simp
      next
        case (Inr pr)
        obtain pd rb1 where pr: "pr = (pd, rb1)" by (cases pr)
        with run Pair Register Some Inr have "rb' = rb1" by simp
        with register_cooling [OF c now] Some Inr pr show ?thesis by simp
      qed
    qed
  next
    case (Mark_pyramiding sid' z g s)
    with run Pair mark_pyramiding_cooling [OF c] show ?thesis by auto
  next
    case (Mark_hedge sid' adj q)
    with run Pair mark_hedge_cooling [OF c now] show ?thesis by auto
  next
    case (Remove sid')
    with run Pair remove_cooling [OF c] show ?thesis by auto
  qed
qed

lemma run_calls_cooling:
  assumes "cooling t0 sid mai rb" and "\<forall>c \<in> set cs. t0 \<le> fst c"
    and "run_calls rb cs = Some rb'"
  shows "cooling t0 sid mai rb'"
  using assms
proof (induction cs arbitrary: rb)
  case Nil
  then show ?case by simp
next
  case (Cons c cs)
  from Cons.prems(3) obtain rb1 where c: "run_call rb c = Some rb1"
    and cs: "run_calls rb1 cs = Some rb'"
    by (auto split: option.splits)
  from Cons.prems(2) have "t0 \<le> fst c" by simp
  with Cons.prems(1) have "cooling t0 sid mai rb1"
    using c by (rule run_call_cooling)
  with Cons.IH [of rb1] Cons.prems(2) cs show ?case by simp
qed

lemma cooling_check:
  assumes "cooling t0 sid mai rb" and "now < t0 + of_int mai"
  shows "check_hedge_drift rb now sid hr = None"
proof (cases "active_positions rb sid")
  case None
  then show ?thesis by (simp add: check_hedge_drift_def)
next
  case (Some p)
  with assms obtain t where t: "last_adjustment rb sid = Some t" "t0 \<le> t"
    and mai: "min_adjustment_interval rb = mai"
    by (auto simp: cooling_def)
  with assms(2) have "now - t < of_int (min_adjustment_interval rb)" by simp
  with Some t show ?thesis by (simp add: check_hedge_drift_def)
qed

text \<open>
  Claim C10. \<open>register_position\<close> sets \<open>last_adjustment\<close> of the spread to the time of
  registration. Whatever is called on the rebalancer afterwards (registrations of this or
  other spreads, executed pyramiding levels, executed adjustments, removals, at clock
  readings not before the registration), \<open>check_hedge_drift\<close> returns \<open>None\<close> for the
  spread at every time from the registration until \<open>min_adjustment_interval\<close> seconds
  later, whatever the drift and the hedge ratio.
\<close>

theorem cooldown_after_registration:
  assumes reg: "register_position rb t0 sid sd z ehr g s total_size psym ssym
                  = Some (Inr (pd, rb1))"
    and later: "\<forall>c \<in> set calls. t0 \<le> fst c"
    and run: "run_calls rb1 calls = Some rb2"
    and after: "t0 \<le> now"
    and within: "now < t0 + of_int (min_adjustment_interval rb)"
  shows "last_adjustment rb1 sid = Some t0
       \<and> check_hedge_drift rb1 now sid hr = None
       \<and> check_hedge_drift rb2 now sid hr = None"
proof -
  from register_position_Inr [OF reg]
  have rb1: "rb1 = rb\<lparr>active_positions := (active_positions rb)(sid \<mapsto> pd),
                        last_adjustment := (last_adjustment rb)(sid \<mapsto> t0)\<rparr>"
    by blast
  then have c1: "cooling t0 sid (min_adjustment_interval rb) rb1"
    by (simp add: cooling_def)
  from run_calls_cooling [OF c1 later run]
  have c2: "cooling t0 sid (min_adjustment_interval rb) rb2" .
  from rb1 have "last_adjustment rb1 sid = Some t0" by simp
  with cooling_check [OF c1 within] cooling_check [OF c2 within] show ?thesis by simp
qed


theorem cooldown_after_registration_witness:
  "\<exists>pd rb1 rb2.
      register_position HybridRebalancer_default 1000 ''s1'' ''LONG'' (- 2) (7179 / 10000)
        (5 / 100) (2 / 100) (15 / 100) ''XAUUSD'' ''XAGUSD'' = Some (Inr (pd, rb1))
    \<and> (1000 :: real) \<le> 1100 \<and> (1000 :: real) \<le> 1200
    \<and> run_calls rb1
          [(1100, Register ''s2'' ''SHORT'' 2 (7 / 10) (3 / 100) (1 / 50) (9 / 100)
                    ''XAUUSD'' ''XAGUSD''),
           (1200, Mark_pyramiding ''s1'' (- (5 / 2)) (1 / 20) (3 / 100))] = Some rb2
    \<and> (1000 :: real) \<le> 2000
    \<and> (2000 :: real) < 1000 + of_int (min_adjustment_interval HybridRebalancer_default)
    \<and> check_hedge_drift rb2 2000 ''s1'' (7179 / 10000) = None
    \<and> check_hedge_drift rb2 4600 ''s1'' (7179 / 10000) \<noteq> None"
proof -
  let ?calls = "[(1100 :: real, Register ''s2'' ''SHORT'' 2 (7 / 10) (3 / 100) (1 / 50)
                    (9 / 100) ''XAUUSD'' ''XAGUSD''),
                 (1200, Mark_pyramiding ''s1'' (- (5 / 2)) (1 / 20) (3 / 100))]"
  have si: "0 < scale_interval HybridRebalancer_default"
    and mai: "min_adjustment_interval HybridRebalancer_default = 3600"
    and en: "enable_hedge_adjustment HybridRebalancer_default"
    and mad: "min_absolute_drift HybridRebalancer_default = 1 / 100"
    by (simp_all add: HybridRebalancer_default_def HybridRebalancer_init_def)
  from register_position_returns [OF si]
  obtain pd rb1 where reg: "register_position HybridRebalancer_default 1000 ''s1'' ''LONG'' (- 2)
      (7179 / 10000) (5 / 100) (2 / 100) (15 / 100) ''XAUUSD'' ''XAGUSD'' = Some (Inr (pd, rb1))"
    by blast
  note r1 = register_position_Inr [OF reg]
  from r1 si have si1: "0 < scale_interval rb1" by simp
  from register_position_returns [OF si1]
  obtain pd' rb1' where reg': "register_position rb1 1100 ''s2'' ''SHORT'' 2 (7 / 10) (3 / 100)
      (1 / 50) (9 / 100) ''XAUUSD'' ''XAGUSD'' = Some (Inr (pd', rb1'))"
    by blast
  note r1' = register_position_Inr [OF reg']
  define rb2 where "rb2 = mark_pyramiding_executed rb1' 1200 ''s1'' (- (5 / 2)) (1 / 20) (3 / 100)"
  have run: "run_calls rb1 ?calls = Some rb2"
    by (simp add: reg' rb2_def)
  have later: "\<forall>c \<in> set ?calls. 1000 \<le> fst c" by simp
  have h1: "(1000 :: real) \<le> 2000" by simp
  have h2: "(2000 :: real) < 1000 + of_int (min_adjustment_interval HybridRebalancer_default)"
    by (simp add: mai)
  note cd = cooldown_after_registration [OF reg later run h1 h2, of "7179 / 10000"]
  from r1 have gl: "gold_lots pd = 5 / 100" and sl: "silver_lots pd = 2 / 100" by blast+
  from r1 have rb1: "rb1 = HybridRebalancer_default
      \<lparr>active_positions := (active_positions HybridRebalancer_default)(''s1'' \<mapsto> pd),
        last_adjustment := (last_adjustment HybridRebalancer_default)(''s1'' \<mapsto> 1000)\<rparr>"
    by blast
  from r1' have rb1': "rb1' = rb1
      \<lparr>active_positions := (active_positions rb1)(''s2'' \<mapsto> pd'),
        last_adjustment := (last_adjustment rb1)(''s2'' \<mapsto> 1100)\<rparr>"
    by blast
  define p2 where "p2 = pd\<lparr>levels := mark_level (levels pd) (- (5 / 2)) 1200 (1 / 20) (3 / 100),
      gold_lots := gold_lots pd + 1 / 20, silver_lots := silver_lots pd + 3 / 100,
      total_executed := total_executed pd + 1\<rparr>"
  have pos1': "active_positions rb1' ''s1'' = Some pd"
    by (simp add: rb1' rb1)
  have pos2: "active_positions rb2 ''s1'' = Some p2"
    by (simp add: rb2_def mark_pyramiding_executed_def pos1' p2_def)
  have la2: "last_adjustment rb2 ''s1'' = Some 1000"
    by (simp add: rb2_def mark_pyramiding_executed_def pos1' rb1' rb1)
  have cfg2: "enable_hedge_adjustment rb2" "min_adjustment_interval rb2 = 3600"
    "min_absolute_drift rb2 = 1 / 100"
    using en mai mad by (simp_all add: rb2_def mark_pyramiding_executed_def pos1' rb1' rb1)
  have cool2: "\<not> 4600 - (case last_adjustment rb2 ''s1'' of None \<Rightarrow> 0 | Some t \<Rightarrow> t)
                  < of_int (min_adjustment_interval rb2)"
    by (simp add: la2 cfg2)
  have lots2: "gold_lots p2 = 1 / 10" "silver_lots p2 = 1 / 20"
    by (simp_all add: p2_def gl sl)
  have "gold_lots p2 * (7179 / 10000) \<noteq> 0"
    and "min_absolute_drift rb2 \<le> \<bar>gold_lots p2 * (7179 / 10000) - silver_lots p2\<bar>"
    by (simp_all add: lots2 cfg2)
  with check_hedge_drift_iff [OF cfg2(1) pos2 cool2, of "7179 / 10000"]
  have "check_hedge_drift rb2 4600 ''s1'' (7179 / 10000) \<noteq> None" by blast
  with reg run cd h2 show ?thesis by auto
qed

section \<open>The small-position example\<close>

text \<open>
  The example of claim C9 on the code: a registered position of 0.01 primary and 0.01
  secondary lots, default thresholds, ratio 0.7179, cooldown over. The drift is 0.002821
  lots, under the absolute threshold, and \<open>check_hedge_drift\<close> still returns an
  adjustment: the drift is 39.3 percent of the target, over the 5 percent threshold.
\<close>

theorem small_drift_example_triggers:
  "check_hedge_drift (registered_at_defaults 0 (1 / 100) (1 / 100)) 3600 ''s1''
       (7179 / 10000) \<noteq> None
   \<and> map_option action (check_hedge_drift (registered_at_defaults 0 (1 / 100) (1 / 100))
       3600 ''s1'' (7179 / 10000)) = Some ''BUY''
   \<and> map_option symbol (check_hedge_drift (registered_at_defaults 0 (1 / 100) (1 / 100))
       3600 ''s1'' (7179 / 10000)) = Some ''XAUUSD''
   \<and> map_option quantity (check_hedge_drift (registered_at_defaults 0 (1 / 100) (1 / 100))
       3600 ''s1'' (7179 / 10000)) = Some (2821 / 717900)"
proof -
  let ?rb = "registered_at_defaults 0 (1 / 100) (1 / 100)"
  obtain p where p: "active_positions ?rb ''s1'' = Some p"
    and pl: "gold_lots p = 1 / 100" "silver_lots p = 1 / 100"
    and ps: "pos_primary_symbol p = ''XAUUSD''"
    using registered_position [of 0 "1 / 100" "1 / 100"] by blast
  have cool: "\<not> 3600 - (case last_adjustment ?rb ''s1'' of None \<Rightarrow> 0 | Some t \<Rightarrow> t)
                 < of_int (min_adjustment_interval ?rb)"
    by (simp add: registered_fields)
  have "gold_lots p * (7179 / 10000) \<noteq> 0"
    and "hedge_drift_threshold ?rb
           \<le> \<bar>gold_lots p * (7179 / 10000) - silver_lots p\<bar> / (gold_lots p * (7179 / 10000))"
    by (simp_all add: pl registered_fields)
  with check_hedge_drift_iff [OF registered_fields(1) p cool, of "7179 / 10000"]
  obtain x where x: "check_hedge_drift ?rb 3600 ''s1'' (7179 / 10000) = Some x" by blast
  from check_hedge_drift_Some [OF x p]
  show ?thesis unfolding x pl ps by simp
qed

text \<open>
  Claim C9, as the code has it. For 0.01 primary lots, 0.01 secondary lots and ratio
  0.7179, with the absolute threshold at its default 0.01, the absolute drift 0.002821 is
  below that threshold; with the default relative threshold 0.05 the check returns BUY
  \<open>2821 / 717900\<close> (about 0.00393) lots of the primary instrument, and it returns \<open>None\<close>
  when the relative threshold is above \<open>2821 / 7179\<close> (about 0.393).
\<close>

theorem small_drift_percentage_trigger:
  assumes en: "enable_hedge_adjustment rb"
    and pos: "active_positions rb sid = Some p"
    and cool: "\<not> now - (case last_adjustment rb sid of None \<Rightarrow> 0 | Some t \<Rightarrow> t)
                   < of_int (min_adjustment_interval rb)"
    and lots: "gold_lots p = 1 / 100" "silver_lots p = 1 / 100"
    and mad: "min_absolute_drift rb = 1 / 100"
  shows "\<bar>gold_lots p * (7179 / 10000) - silver_lots p\<bar> = 2821 / 1000000
       \<and> \<bar>gold_lots p * (7179 / 10000) - silver_lots p\<bar> < min_absolute_drift rb
       \<and> (hedge_drift_threshold rb = 5 / 100 \<longrightarrow>
            (\<exists>adj. check_hedge_drift rb now sid (7179 / 10000) = Some adj
               \<and> action adj = ''BUY'' \<and> symbol adj = pos_primary_symbol p
               \<and> quantity adj = 2821 / 717900 \<and> drift_pct adj = 2821 / 7179))
       \<and> (2821 / 7179 < hedge_drift_threshold rb \<longrightarrow>
            check_hedge_drift rb now sid (7179 / 10000) = None)"
proof -
  have tgt: "gold_lots p * (7179 / 10000) \<noteq> 0" by (simp add: lots)
  note iff = check_hedge_drift_iff [OF en pos cool tgt]
  have d: "\<bar>gold_lots p * (7179 / 10000) - silver_lots p\<bar> = 2821 / 1000000"
    by (simp add: lots)
  have a: "\<exists>adj. check_hedge_drift rb now sid (7179 / 10000) = Some adj
               \<and> action adj = ''BUY'' \<and> symbol adj = pos_primary_symbol p
               \<and> quantity adj = 2821 / 717900 \<and> drift_pct adj = 2821 / 7179"
    if thr: "hedge_drift_threshold rb = 5 / 100"
  proof -
    from iff have "check_hedge_drift rb now sid (7179 / 10000) \<noteq> None"
      by (simp add: lots thr mad)
    then obtain adj where adj: "check_hedge_drift rb now sid (7179 / 10000) = Some adj"
      by blast
    from check_hedge_drift_Some [OF adj pos] adj show ?thesis
      unfolding lots by simp
  qed
  have b: "check_hedge_drift rb now sid (7179 / 10000) = None"
    if thr: "2821 / 7179 < hedge_drift_threshold rb"
  proof -
    from thr have "\<not> hedge_drift_threshold rb \<le> 2821 / 7179" by simp
    with iff show ?thesis by (simp add: lots mad)
  qed
  from d mad a b show ?thesis by simp
qed

theorem small_drift_percentage_trigger_witness:
  "map_option symbol (check_hedge_drift (registered_at_defaults 0 (1 / 100) (1 / 100))
       3600 ''s1'' (7179 / 10000)) = Some ''XAUUSD''
   \<and> map_option drift_pct (check_hedge_drift (registered_at_defaults 0 (1 / 100) (1 / 100))
       3600 ''s1'' (7179 / 10000)) = Some (2821 / 7179)
   \<and> check_hedge_drift
        ((registered_at_defaults 0 (1 / 100) (1 / 100))\<lparr>hedge_drift_threshold := 1 / 2\<rparr>)
        3600 ''s1'' (7179 / 10000) = None"
proof -
  let ?rb = "registered_at_defaults 0 (1 / 100) (1 / 100)"
  let ?rc = "?rb\<lparr>hedge_drift_threshold := 1 / 2\<rparr>"
  obtain p where p: "active_positions ?rb ''s1'' = Some p"
    and pl: "gold_lots p = 1 / 100" "silver_lots p = 1 / 100"
    and ps: "pos_primary_symbol p = ''XAUUSD''"
    using registered_position [of 0 "1 / 100" "1 / 100"] by blast
  have en: "enable_hedge_adjustment ?rb" by (rule registered_fields)
  have cool: "\<not> 3600 - (case last_adjustment ?rb ''s1'' of None \<Rightarrow> 0 | Some t \<Rightarrow> t)
                 < of_int (min_adjustment_interval ?rb)"
    by (simp add: registered_fields)
  have mad: "min_absolute_drift ?rb = 1 / 100" by (rule registered_fields)
  have p': "active_positions ?rc ''s1'' = Some p" using p by simp
  have en': "enable_hedge_adjustment ?rc" using en by simp
  have cool': "\<not> 3600 - (case last_adjustment ?rc ''s1'' of None \<Rightarrow> 0 | Some t \<Rightarrow> t)
                 < of_int (min_adjustment_interval ?rc)"
    using cool by simp
  have mad': "min_absolute_drift ?rc = 1 / 100" using mad by simp
  from small_drift_percentage_trigger [OF en p cool pl mad]
       small_drift_percentage_trigger [OF en' p' cool' pl mad']
  show ?thesis by (auto simp: registered_fields ps)
qed

section \<open>Applying an executed adjustment\<close>

text \<open>
  Claim C4 asks that \<open>mark_hedge_adjusted\<close> add the executed quantity to the leg the
  adjustment names. The code never reads \<open>adjustment.symbol\<close>: for a registered position
  it changes \<open>silver_lots\<close> by the executed quantity (added for BUY, subtracted
  otherwise) and leaves \<open>gold_lots\<close> as it was, also when the adjustment buys the primary
  instrument. The new hedge ratio, the cooldown clock and the history are as the claim
  says.
\<close>

theorem mark_hedge_adjusted_updates_secondary_only:
  assumes pos: "active_positions rb sid = Some p"
  shows "\<exists>p'. active_positions (mark_hedge_adjusted rb now sid adj q) sid = Some p'
           \<and> gold_lots p' = gold_lots p
           \<and> silver_lots p' = (if action adj = ''BUY'' then silver_lots p + q
                               else silver_lots p - q)
           \<and> current_hedge_ratio p' = new_hedge adj
           \<and> last_adjustment (mark_hedge_adjusted rb now sid adj q) sid = Some now
           \<and> adjustment_history (mark_hedge_adjusted rb now sid adj q)
                = adjustment_history rb @ [adj]"
  using pos by (simp add: mark_hedge_adjusted_def Let_def)

text \<open>
  The failing input: 0.05 primary and 0.05 secondary lots at ratio 0.7179. The check asks
  to buy the primary instrument; after 0.02 lots are executed the position has 0.05
  primary lots still and 0.07 secondary lots.
\<close>

theorem primary_leg_adjustment_booked_as_secondary:
  "\<exists>adj. check_hedge_drift (registered_at_defaults 0 (5 / 100) (5 / 100)) 3600 ''s1''
            (7179 / 10000) = Some adj
     \<and> action adj = ''BUY'' \<and> symbol adj = ''XAUUSD''
     \<and> map_option gold_lots
          (active_positions
             (mark_hedge_adjusted (registered_at_defaults 0 (5 / 100) (5 / 100)) 3600 ''s1''
                adj (2 / 100)) ''s1'') = Some (5 / 100)
     \<and> map_option silver_lots
          (active_positions
             (mark_hedge_adjusted (registered_at_defaults 0 (5 / 100) (5 / 100)) 3600 ''s1''
                adj (2 / 100)) ''s1'') = Some (7 / 100)"
proof -
  let ?b = "registered_at_defaults 0 (5 / 100) (5 / 100)"
  obtain q where q: "active_positions ?b ''s1'' = Some q"
    and ql: "gold_lots q = 5 / 100" "silver_lots q = 5 / 100"
    and qs: "pos_primary_symbol q = ''XAUUSD''"
    using registered_position [of 0 "5 / 100" "5 / 100"] by blast
  have cool: "\<not> 3600 - (case last_adjustment ?b ''s1'' of None \<Rightarrow> 0 | Some t \<Rightarrow> t)
                 < of_int (min_adjustment_interval ?b)"
    by (simp add: registered_fields)
  have "gold_lots q * (7179 / 10000) \<noteq> 0"
    and "min_absolute_drift ?b \<le> \<bar>gold_lots q * (7179 / 10000) - silver_lots q\<bar>"
    by (simp_all add: ql registered_fields)
  with check_hedge_drift_iff [OF registered_fields(1) q cool, of "7179 / 10000"]
  obtain y where y: "check_hedge_drift ?b 3600 ''s1'' (7179 / 10000) = Some y" by blast
  from check_hedge_drift_Some [OF y q]
  have ya: "action y = ''BUY''" and ys: "symbol y = ''XAUUSD''"
    by (simp_all add: ql qs)
  from mark_hedge_adjusted_updates_secondary_only [OF q, of 3600 y "2 / 100"]
  obtain p' where "active_positions (mark_hedge_adjusted ?b 3600 ''s1'' y (2 / 100)) ''s1''
      = Some p'"
    and "gold_lots p' = 5 / 100" and "silver_lots p' = 7 / 100"
    by (auto simp: ql ya)
  with y ya ys show ?thesis by simp
qed

section \<open>The pyramiding ladder\<close>

text \<open>
  Claim C7. With \<open>scale_interval = 0.5\<close> and \<open>max_zscore = 3.5\<close>, the ladder of a LONG
  entry at -2.0 is -2.0, -2.5, -3.0, -3.5 in that order: strictly decreasing, without
  duplicates, only the first level executed, the last level \<open>-max_zscore\<close>. The ladder of a
  SHORT entry at 2.0 is 2.0, 2.5, 3.0, 3.5. \<open>register_position\<close> keeps these levels, the
  first one executed.
\<close>

theorem pyramiding_ladder_example:
  "(\<exists>ls. calculate_pyramiding_levels
            (HybridRebalancer_init (1 / 2) (7 / 2) (33 / 100) (5 / 100) (1 / 100) 3600 True)
            (- 2) ''LONG'' = Some ls
      \<and> map zscore ls = [- 2, - (5 / 2), - 3, - (7 / 2)]
      \<and> map executed ls = [True, False, False, False]
      \<and> sorted_wrt (>) (map zscore ls) \<and> distinct (map zscore ls)
      \<and> last (map zscore ls) = - (7 / 2))
   \<and> (\<exists>ls. calculate_pyramiding_levels
            (HybridRebalancer_init (1 / 2) (7 / 2) (33 / 100) (5 / 100) (1 / 100) 3600 True)
            2 ''SHORT'' = Some ls
      \<and> map zscore ls = [2, 5 / 2, 3, 7 / 2]
      \<and> map executed ls = [True, False, False, False]
      \<and> sorted_wrt (<) (map zscore ls) \<and> distinct (map zscore ls)
      \<and> last (map zscore ls) = 7 / 2)
   \<and> (\<exists>pd rb'. register_position
            (HybridRebalancer_init (1 / 2) (7 / 2) (33 / 100) (5 / 100) (1 / 100) 3600 True)
            0 ''s1'' ''LONG'' (- 2) (7179 / 10000) (5 / 100) (2 / 100) (15 / 100)
            ''XAUUSD'' ''XAGUSD'' = Some (Inr (pd, rb'))
      \<and> map zscore (levels pd) = [- 2, - (5 / 2), - 3, - (7 / 2)]
      \<and> map executed (levels pd) = [True, False, False, False])"
proof -
  let ?rb = "HybridRebalancer_init (1 / 2) (7 / 2) (33 / 100) (5 / 100) (1 / 100) 3600 True"
  have long: "calculate_pyramiding_levels ?rb (- 2) ''LONG'' =
      Some [new_level (- 2) True, new_level (- (5 / 2)) False, new_level (- 3) False,
            new_level (- (7 / 2)) False]"
    by (simp add: calculate_pyramiding_levels_def HybridRebalancer_init_def pyramid_loop.simps)
  have short: "calculate_pyramiding_levels ?rb 2 ''SHORT'' =
      Some [new_level 2 True, new_level (5 / 2) False, new_level 3 False,
            new_level (7 / 2) False]"
    by (simp add: calculate_pyramiding_levels_def HybridRebalancer_init_def pyramid_loop.simps)
  have reg: "\<exists>pd rb'. register_position ?rb 0 ''s1'' ''LONG'' (- 2) (7179 / 10000) (5 / 100)
      (2 / 100) (15 / 100) ''XAUUSD'' ''XAGUSD'' = Some (Inr (pd, rb'))
      \<and> map zscore (levels pd) = [- 2, - (5 / 2), - 3, - (7 / 2)]
      \<and> map executed (levels pd) = [True, False, False, False]"
    unfolding register_position_def long by (simp add: Let_def new_level_def)
  show ?thesis
    unfolding long short using reg by (simp add: new_level_def)
qed

section \<open>Properties of spread placement\<close>

lemma leg_volume_Some:
  "leg_volume (Some i) v = spread_leg_volume v (volume_step i) (volume_min i) (volume_max i)"
  by (simp add: leg_volume_def)


lemma place_order_requests:
  "requests (snd (place_order_no_adjustment ex br smb ty vol sl tp c)) = requests br
   \<or> (\<exists>rq. requests (snd (place_order_no_adjustment ex br smb ty vol sl tp c))
               = requests br @ [rq]
          \<and> req_symbol rq = smb \<and> req_volume rq = vol)"
  by (auto simp: place_order_no_adjustment_def order_send_def market_request_def Let_def
           split: option.splits prod.splits)





lemma py_upper_words:
  "py_upper ''LONG'' = ''LONG''" "py_upper ''SHORT'' = ''SHORT''"
  "py_upper ''BUY'' = ''BUY''" "py_upper ''SELL'' = ''SELL''"
  by (simp_all add: py_upper_def upper_char_def)

lemma order_send_market_request:
  "order_send br (market_request ex smb ty vol sl tp c t)
     = (respond br (market_request ex smb ty vol sl tp c t),
        br\<lparr>requests := requests br @ [market_request ex smb ty vol sl tp c t]\<rparr>)"
  by (simp add: order_send_def market_request_def Let_def)

lemma place_order_visible:
  assumes info: "symbols br smb = Some info" and vis: "visible info"
    and tick: "ticks br smb = Some t"
  shows "\<exists>res. place_order_no_adjustment ex br smb ty vol sl tp c
             = (Inr res,
                br\<lparr>requests := requests br @ [market_request ex smb ty vol sl tp c t]\<rparr>)
           \<and> success res = (case respond br (market_request ex smb ty vol sl tp c t) of
                               None \<Rightarrow> False
                             | Some r \<Rightarrow> retcode r = TRADE_RETCODE_DONE)"
  unfolding place_order_no_adjustment_def info tick Let_def order_send_market_request
  using vis by (simp add: failed_result_def split: option.splits)


lemma market_request_fields:
  "req_symbol (market_request ex smb ty vol sl tp c t) = smb"
  "req_volume (market_request ex smb ty vol sl tp c t) = vol"
  by (simp_all add: market_request_def Let_def)

lemma demo_symbols:
  "symbols (demo_terminal answer ps) (primary_symbol MT5TradeExecutor_default)
     = Some \<lparr>visible = True, volume_min = 1 / 100, volume_max = 100, volume_step = 1 / 100\<rparr>"
  "symbols (demo_terminal answer ps) (secondary_symbol MT5TradeExecutor_default)
     = Some \<lparr>visible = True, volume_min = 1 / 100, volume_max = 100, volume_step = 1 / 100\<rparr>"
  by (simp_all add: demo_terminal_def MT5TradeExecutor_default_def)

lemma demo_ticks:
  "ticks (demo_terminal answer ps) (primary_symbol MT5TradeExecutor_default)
     = Some \<lparr>ask = 2651, bid = 2650\<rparr>"
  "ticks (demo_terminal answer ps) (secondary_symbol MT5TradeExecutor_default)
     = Some \<lparr>ask = 31, bid = 30\<rparr>"
  by (simp_all add: demo_terminal_def MT5TradeExecutor_default_def)

lemma demo_requests_respond:
  "requests (demo_terminal answer ps) = []"
  "respond (demo_terminal answer ps) = answer"
  by (simp_all add: demo_terminal_def)

lemma demo_leg_volumes:
  "spread_leg_volume (1 / 100) (1 / 100) (1 / 100) 100 = Inr (1 / 100)"
  "spread_leg_volume (1 / 10) (1 / 100) (1 / 100) 100 = Inr (1 / 10)"
  by (simp_all add: spread_leg_volume_def round_to_step_def py_round_def Let_def)

lemma demo_plan:
  "spread_volumes MT5TradeExecutor_default (demo_terminal answer ps) (1 / 100) (1 / 10) =
     Inr \<lparr>hedge_ratio = 10, gold_adjusted = 1 / 100, silver_from_hedge = 1 / 10,
          silver_adjusted = 1 / 10, final_ratio = 10, ratio_error = 0\<rparr>"
proof -
  have m: "volume_multiplier MT5TradeExecutor_default = 1"
    by (simp add: MT5TradeExecutor_default_def)
  show ?thesis
    unfolding spread_volumes_def demo_symbols leg_volume_Some m
    by (simp add: demo_leg_volumes)
qed




text \<open>
  Claim C5 asks that a failed primary order be returned to the caller without an
  exception. The code sends no secondary order then, but its \<open>return\<close> at line 361 reads
  the local \<open>spread_id\<close>, which is assigned at line 388 only: whenever the primary result is
  not a success, \<open>place_spread_orders\<close> raises \<open>UnboundLocalError\<close>. The terminal is left as
  the primary attempt left it.
\<close>

theorem primary_failure_raises:
  assumes sd: "py_upper sd = ''LONG'' \<or> py_upper sd = ''SHORT''"
    and plan: "spread_volumes ex br gv sv = Inr plan"
    and gold: "place_order_no_adjustment ex br (primary_symbol ex)
                 (if py_upper sd = ''LONG'' then ''BUY'' else ''SELL'')
                 (gold_adjusted plan) slg tpg (''ID:'' @ short) = (Inr gold_result, br1)"
    and failed: "\<not> success gold_result"
  shows "place_spread_orders ex br short gv sv sd z slg tpg sls tps
           = (Inl (UnboundLocalError ''spread_id''), br1)
       \<and> (requests br1 = requests br
           \<or> (\<exists>rq. requests br1 = requests br @ [rq] \<and> req_symbol rq = primary_symbol ex
                 \<and> req_volume rq = gold_adjusted plan))"
proof -
  from sd have "\<not> (py_upper sd \<noteq> ''LONG'' \<and> py_upper sd \<noteq> ''SHORT'')" by blast
  with plan gold failed
  have "place_spread_orders ex br short gv sv sd z slg tpg sls tps
           = (Inl (UnboundLocalError ''spread_id''), br1)"
    by (simp add: place_spread_orders_def Let_def read_local_def)
  moreover from place_order_requests [of ex br "primary_symbol ex"
      "if py_upper sd = ''LONG'' then ''BUY'' else ''SELL''" "gold_adjusted plan" slg tpg
      "''ID:'' @ short"] gold
  have "requests br1 = requests br
           \<or> (\<exists>rq. requests br1 = requests br @ [rq] \<and> req_symbol rq = primary_symbol ex
                 \<and> req_volume rq = gold_adjusted plan)"
    by simp
  ultimately show ?thesis ..
qed

text \<open>
  The failing input: the default executor, a LONG spread of 0.01 and 0.1 lots, and a
  terminal whose \<open>order_send\<close> returns \<open>None\<close>.
\<close>

theorem primary_failure_raises_witness:
  "fst (place_spread_orders MT5TradeExecutor_default (demo_terminal (\<lambda>rq. None) Map.empty)
          ''120000'' (1 / 100) (1 / 10) ''LONG'' (- 2) None None None None)
     = Inl (UnboundLocalError ''spread_id'')
   \<and> map (\<lambda>r. (req_symbol r, req_volume r))
        (requests (snd (place_spread_orders MT5TradeExecutor_default
           (demo_terminal (\<lambda>rq. None) Map.empty) ''120000'' (1 / 100) (1 / 10)
           ''LONG'' (- 2) None None None None)))
      = [(''XAUUSD'', 1 / 100)]"
proof -
  let ?ex = MT5TradeExecutor_default
  let ?br = "demo_terminal (\<lambda>rq. None) Map.empty"
  let ?plan = "\<lparr>hedge_ratio = 10, gold_adjusted = 1 / 100, silver_from_hedge = 1 / 10,
          silver_adjusted = 1 / 10, final_ratio = 10, ratio_error = 0\<rparr>"
  let ?ty = "if py_upper ''LONG'' = ''LONG'' then ''BUY'' else ''SELL''"
  let ?rq = "market_request ?ex (primary_symbol ?ex) ?ty (gold_adjusted ?plan) None None
      (''ID:'' @ ''120000'') \<lparr>ask = 2651, bid = 2650\<rparr>"
  have sd: "py_upper ''LONG'' = ''LONG'' \<or> py_upper ''LONG'' = ''SHORT''"
    by (simp add: py_upper_words)
  have s0: "symbols ?br (primary_symbol ?ex) = Some \<lparr>visible = True,
      volume_min = 1 / 100, volume_max = 100, volume_step = 1 / 100\<rparr>"
    and t0: "ticks ?br (primary_symbol ?ex) = Some \<lparr>ask = 2651, bid = 2650\<rparr>"
    by (simp_all add: demo_symbols demo_ticks)
  from place_order_visible [OF s0 _ t0, of ?ex ?ty "gold_adjusted ?plan" None None
      "''ID:'' @ ''120000''"]
  obtain g where gold: "place_order_no_adjustment ?ex ?br (primary_symbol ?ex) ?ty
      (gold_adjusted ?plan) None None (''ID:'' @ ''120000'')
      = (Inr g, ?br\<lparr>requests := requests ?br @ [?rq]\<rparr>)"
    and failed: "\<not> success g"
    by (auto simp: demo_requests_respond)
  from primary_failure_raises [OF sd demo_plan gold failed, of "- 2" None None]
  show ?thesis
    by (simp add: market_request_fields demo_requests_respond MT5TradeExecutor_default_def)
qed

section \<open>Properties of closing a setup\<close>

text \<open>
  The loop counts a success only for a ticket that the terminal still has, and the
  terminal's positions only shrink while it runs.
\<close>

lemma order_send_positions:
  "positions (snd (order_send br rq)) t \<noteq> None \<Longrightarrow> positions br t \<noteq> None"
  by (auto simp: order_send_def Let_def split: option.splits if_splits)

lemma filter_length_mono:
  "(\<And>x. P x \<Longrightarrow> Q x) \<Longrightarrow> length (filter P xs) \<le> length (filter Q xs)"
  by (induction xs) auto

lemma close_tickets_count:
  "fst (close_tickets sid ts br c f) \<le> c + length (filter (\<lambda>t. positions br t \<noteq> None) ts)"
proof (induction ts arbitrary: br c f)
  case Nil
  show ?case by simp
next
  case (Cons t ts)
  show ?case
  proof (cases "positions br t")
    case None
    with Cons.IH [of br c f] show ?thesis by simp
  next
    case (Some p)
    define rq where "rq = close_request sid t p"
    obtain res br' where os: "order_send br rq = (res, br')" by (cases "order_send br rq")
    have shrink: "length (filter (\<lambda>t. positions br' t \<noteq> None) ts)
            \<le> length (filter (\<lambda>t. positions br t \<noteq> None) ts)"
      using order_send_positions [of br rq] os by (intro filter_length_mono) simp
    have ih: "fst (close_tickets sid ts br' c' f')
        \<le> c' + length (filter (\<lambda>t. positions br t \<noteq> None) ts)" for c' f'
      using Cons.IH [of br' c' f'] shrink by linarith
    have "fst (close_tickets sid (t # ts) br c f)
        \<le> Suc c + length (filter (\<lambda>t. positions br t \<noteq> None) ts)"
      using ih [of c "f @ [t]"] ih [of "c + 1" f] Some os
      by (simp add: rq_def [symmetric] split: option.splits)
    with Some show ?thesis by simp
  qed
qed


text \<open>
  Claim C6 asks that tickets already absent from the broker be skipped and not count
  against success. The loop does skip them, but the function then compares
  \<open>success_count\<close> with the number of all tickets, so one absent ticket is enough for it
  to return \<open>False\<close> and to leave the tracker as it was, whatever happens to the others.
\<close>

theorem missing_ticket_blocks_close:
  assumes t: "t \<in> set (get_all_setup_tickets tr sid)"
    and gone: "positions br t = None"
  shows "fst (close_all_positions_in_setup tr br now_iso sid) = False
       \<and> fst (snd (close_all_positions_in_setup tr br now_iso sid)) = tr"
proof -
  let ?ts = "get_all_setup_tickets tr sid"
  from t have ne: "?ts \<noteq> []" by auto
  have "length (filter (\<lambda>t. positions br t \<noteq> None) ?ts) < length ?ts"
    using t gone by (intro length_filter_less) auto
  with close_tickets_count [of sid ?ts br 0 "[]"]
  have less: "fst (close_tickets sid ?ts br 0 []) < length ?ts" by simp
  obtain c f br' where ct: "close_tickets sid ?ts br 0 [] = (c, f, br')"
    by (cases "close_tickets sid ?ts br 0 []") auto
  with less have "c \<noteq> length ?ts" by simp
  with ne ct show ?thesis
    by (simp add: close_all_positions_in_setup_def Let_def)
qed

text \<open>
  The failing input: ticket 101 is gone from the terminal, ticket 102 is open and the
  terminal fills the closing deal. One ticket closes, none fails, the result is \<open>False\<close>
  and the setup stays active.
\<close>

lemma demo_tickets: "get_all_setup_tickets demo_tracker ''setup_1'' = [101, 102]"
  by (simp add: get_all_setup_tickets_def demo_tracker_def demo_setup_def)

lemma demo_close_tickets:
  "close_tickets ''setup_1'' [101, 102]
      (demo_terminal (accept_order 1001) [102 \<mapsto> demo_silver_position]) 0 []
   = (1, [],
      (demo_terminal (accept_order 1001) [102 \<mapsto> demo_silver_position])
        \<lparr>positions := Map.empty,
          requests := [close_request ''setup_1'' 102 demo_silver_position]\<rparr>)"
proof -
  let ?br = "demo_terminal (accept_order 1001) [102 \<mapsto> demo_silver_position]"
  have p1: "positions ?br 101 = None" and p2: "positions ?br 102 = Some demo_silver_position"
    by (simp_all add: demo_terminal_def)
  have os: "order_send ?br (close_request ''setup_1'' 102 demo_silver_position)
      = (accept_order 1001 (close_request ''setup_1'' 102 demo_silver_position),
         ?br\<lparr>positions := Map.empty,
              requests := [close_request ''setup_1'' 102 demo_silver_position]\<rparr>)"
    by (simp add: order_send_def demo_terminal_def accept_order_def close_request_def Let_def)
  show ?thesis
    by (simp add: p1 p2 os accept_order_def)
qed

theorem missing_ticket_blocks_close_witness:
  "101 \<in> set (get_all_setup_tickets demo_tracker ''setup_1'')
   \<and> positions (demo_terminal (accept_order 1001) [102 \<mapsto> demo_silver_position]) 101 = None
   \<and> fst (close_tickets ''setup_1'' (get_all_setup_tickets demo_tracker ''setup_1'')
        (demo_terminal (accept_order 1001) [102 \<mapsto> demo_silver_position]) 0 []) = 1
   \<and> fst (snd (close_tickets ''setup_1'' (get_all_setup_tickets demo_tracker ''setup_1'')
        (demo_terminal (accept_order 1001) [102 \<mapsto> demo_silver_position]) 0 [])) = []
   \<and> fst (close_all_positions_in_setup demo_tracker
        (demo_terminal (accept_order 1001) [102 \<mapsto> demo_silver_position])
        ''2025-01-02T09:00:00'' ''setup_1'') = False
   \<and> map_option status (active_setups (fst (snd (close_all_positions_in_setup demo_tracker
        (demo_terminal (accept_order 1001) [102 \<mapsto> demo_silver_position])
        ''2025-01-02T09:00:00'' ''setup_1''))) ''setup_1'') = Some ''ACTIVE''"
proof -
  let ?br = "demo_terminal (accept_order 1001) [102 \<mapsto> demo_silver_position]"
  have t: "101 \<in> set (get_all_setup_tickets demo_tracker ''setup_1'')"
    by (simp add: demo_tickets)
  have gone: "positions ?br 101 = None" by (simp add: demo_terminal_def)
  have act: "map_option status (active_setups demo_tracker ''setup_1'') = Some ''ACTIVE''"
    by (simp add: demo_tracker_def demo_setup_def)
  have ct: "fst (close_tickets ''setup_1'' (get_all_setup_tickets demo_tracker ''setup_1'')
        ?br 0 []) = 1"
    "fst (snd (close_tickets ''setup_1'' (get_all_setup_tickets demo_tracker ''setup_1'')
        ?br 0 [])) = []"
    unfolding demo_tickets demo_close_tickets by simp_all
  from missing_ticket_blocks_close [OF t gone, of "''2025-01-02T09:00:00''"] act
  have "fst (close_all_positions_in_setup demo_tracker ?br ''2025-01-02T09:00:00''
          ''setup_1'') = False"
    and "map_option status (active_setups (fst (snd (close_all_positions_in_setup demo_tracker
          ?br ''2025-01-02T09:00:00'' ''setup_1''))) ''setup_1'') = Some ''ACTIVE''"
    by simp_all
  with t gone ct show ?thesis by blast
qed


text \<open>
  When the function does return \<open>True\<close>, the setup is closed as the claim says: its file
  holds status CLOSED and exit z-score 0.0, and it has left the active setups.
\<close>

lemma close_all_success_marks_closed:
  assumes ok: "fst (close_all_positions_in_setup tr br now_iso sid)"
    and act: "active_setups tr sid = Some s"
  shows "fst (snd (close_all_positions_in_setup tr br now_iso sid))
           = close_setup tr now_iso sid 0"
    and "setup_files (close_setup tr now_iso sid 0) (setup_id s)
           = Some (s\<lparr>status := ''CLOSED'', exit_zscore := Some 0, last_updated := now_iso\<rparr>)"
    and "active_setups (close_setup tr now_iso sid 0) sid = None"
proof -
  show "fst (snd (close_all_positions_in_setup tr br now_iso sid))
           = close_setup tr now_iso sid 0"
    using ok
    by (auto simp: close_all_positions_in_setup_def Let_def split: if_splits prod.splits)
  show "setup_files (close_setup tr now_iso sid 0) (setup_id s)
           = Some (s\<lparr>status := ''CLOSED'', exit_zscore := Some 0, last_updated := now_iso\<rparr>)"
    by (simp add: close_setup_def act save_setup_def Let_def)
  show "active_setups (close_setup tr now_iso sid 0) sid = None"
    by (simp add: close_setup_def act save_setup_def Let_def)
qed

end
